theory Spec2Isabelle
  imports Complex_Main
begin

section \<open>Waste categories\<close>

text \<open>
  Modelled from the spec: the module \<^verbatim>\<open>types\<close> that declares the enum \<^verbatim>\<open>WasteType\<close> is
  imported by every source file but is not among them. The spec gives the enumeration
  as PLASTIC, NON_PLASTIC, UNKNOWN, and the remote service answers with the strings
  "PLASTIC", "NON_PLASTIC" and "UNKNOWN", which the classifier compares with the
  members of the enum: each member's runtime value is taken to be its own name.
\<close>

datatype WasteType = PLASTIC | NON_PLASTIC | UNKNOWN

fun WasteType_value :: "WasteType \<Rightarrow> string" where
  "WasteType_value PLASTIC = ''PLASTIC''"
| "WasteType_value NON_PLASTIC = ''NON_PLASTIC''"
| "WasteType_value UNKNOWN = ''UNKNOWN''"


section \<open>Result display (components/ClassificationResult.tsx)\<close>

text \<open>
  \<^verbatim>\<open>getResultDetails\<close> is a switch over the result with a default branch. The three
  icon components become the tokens of a datatype.
\<close>

datatype icon = PlasticIcon | NonPlasticIcon | UnknownIcon

text \<open>The field \<^verbatim>\<open>text\<close> is written \<open>text'\<close>.\<close>

record details =
  text' :: string
  style :: string
  icon :: icon

fun getResultDetails :: "WasteType \<Rightarrow> details" where
  "getResultDetails PLASTIC =
     \<lparr>text' = ''Plastic Waste'',
      style = ''bg-orange-500/20 border-orange-500 text-orange-300'',
      icon = PlasticIcon\<rparr>"
| "getResultDetails NON_PLASTIC =
     \<lparr>text' = ''Non-Plastic Waste'',
      style = ''bg-green-500/20 border-green-500 text-green-300'',
      icon = NonPlasticIcon\<rparr>"
| "getResultDetails _ =
     \<lparr>text' = ''Scanning...'',
      style = ''bg-gray-700/50 border-gray-600 text-gray-400'',
      icon = UnknownIcon\<rparr>"


section \<open>Classification client (services/wasteClassifier)\<close>

subsection \<open>JavaScript values the client handles\<close>

text \<open>
  A JavaScript number is a double: a finite one is a rational, and comparison of
  doubles is exact, so \<open>Num q\<close> carries the value of the double. The threshold 0.75
  is itself a double. \<open>x < y\<close> and \<open>x >= y\<close> are both false when either side is NaN.
\<close>

datatype number = NaN | NegInfinity | Num rat | PosInfinity

fun js_lt :: "number \<Rightarrow> number \<Rightarrow> bool" where
  "js_lt NaN _ = False"
| "js_lt _ NaN = False"
| "js_lt (Num a) (Num b) = (a < b)"
| "js_lt NegInfinity NegInfinity = False"
| "js_lt NegInfinity _ = True"
| "js_lt _ NegInfinity = False"
| "js_lt PosInfinity _ = False"
| "js_lt _ PosInfinity = True"

fun js_ge :: "number \<Rightarrow> number \<Rightarrow> bool" where
  "js_ge NaN _ = False"
| "js_ge _ NaN = False"
| "js_ge x y = (\<not> js_lt x y)"

text \<open>
  What \<^verbatim>\<open>JSON.parse\<close> returns. An object keeps its members in the order of the text;
  when a key is repeated the last member wins.
\<close>

datatype json =
    JNull
  | JBool bool
  | JNum number
  | JStr string
  | JArr "json list"
  | JObj "(string \<times> json) list"

text \<open>\<open>member kvs k\<close> is \<^verbatim>\<open>o[k]\<close> for \<open>o\<close> the object with the members \<open>kvs\<close>.\<close>

definition member :: "(string \<times> json) list \<Rightarrow> string \<Rightarrow> json option" where
  "member kvs k = map_of (rev kvs) k"

text \<open>Exceptions and rejected promises.\<close>

datatype exn =
    Error string
  | SyntaxError
  | TypeError
  | Rejected string

text \<open>
  Everything one call reads from outside the program: whether the canvas hands out a
  2D context, the data URL the canvas encodes, the answer of the remote service to
  the one request (a rejection, or the \<^verbatim>\<open>text\<close> of the response, which may be
  undefined), \<^verbatim>\<open>JSON.parse\<close>, and the engine's two conversions between strings and
  numbers, neither of which throws: the numeric value of a string and the decimal
  text of a number.
\<close>

record HTMLVideoElement =
  videoWidth :: nat
  videoHeight :: nat

record runtime =
  getContext :: bool
  toDataURL :: "HTMLVideoElement \<Rightarrow> string"
  generateContent :: "string option \<Rightarrow> exn + string option"
  JSON_parse :: "string \<Rightarrow> exn + json"
  StringToNumber :: "string \<Rightarrow> number"
  NumberToString :: "number \<Rightarrow> string"

text \<open>What a call does outside the program, in order.\<close>

datatype action = CaptureFrame | RemoteRequest "string option"

subsection \<open>captureFrame\<close>

text \<open>\<^verbatim>\<open>s.split(c)\<close>: the pieces of \<open>s\<close> between the occurrences of \<open>c\<close>, never empty.\<close>

fun split :: "char \<Rightarrow> string \<Rightarrow> string list" where
  "split c [] = [[]]"
| "split c (x # xs) =
     (if x = c then [] # split c xs
      else (case split c xs of [] \<Rightarrow> [[x]] | p # ps \<Rightarrow> (x # p) # ps))"

text \<open>\<^verbatim>\<open>xs[i]\<close>: undefined past the end.\<close>

fun index :: "'a list \<Rightarrow> nat \<Rightarrow> 'a option" where
  "index [] _ = None"
| "index (x # xs) 0 = Some x"
| "index (x # xs) (Suc i) = index xs i"

definition captureFrame :: "runtime \<Rightarrow> HTMLVideoElement \<Rightarrow> exn + string option" where
  "captureFrame rt videoElement =
     (if \<not> getContext rt then Inl (Error ''Could not get 2D context from canvas.'')
      else Inr (index (split CHR '','' (toDataURL rt videoElement)) 1))"

subsection \<open>classifyWaste\<close>

text \<open>
  \<^verbatim>\<open>const { classification, confidence } = resultJson\<close>: a TypeError on null; the two
  members of an object (undefined when missing); undefined twice on any other value,
  whose prototypes have neither property.
\<close>


fun destructure :: "json \<Rightarrow> exn + json option \<times> json option" where
  "destructure JNull = Inl TypeError"
| "destructure (JObj kvs) = Inr (member kvs ''classification'', member kvs ''confidence'')"
| "destructure _ = Inr (None, None)"

text \<open>
  \<^verbatim>\<open>confidence < 0.75\<close> converts the left side to a number. Undefined is NaN, null is
  0, a boolean 0 or 1, a string its numeric value. An array or an object is first
  converted to a primitive: \<^verbatim>\<open>valueOf\<close> gives none (the inherited one returns the
  object itself, and a member of that name is no function), so \<^verbatim>\<open>toString\<close> decides.
  An array's \<^verbatim>\<open>toString\<close> joins the texts of its elements with commas, null
  elements giving the empty text. An object's \<^verbatim>\<open>toString\<close> is the inherited one, with
  the text "[object Object]", unless the object has a member named \<^verbatim>\<open>toString\<close>: no
  value of \<^verbatim>\<open>JSON.parse\<close> is a function, and the conversion throws a TypeError.
\<close>

fun join :: "string list \<Rightarrow> string" where
  "join [] = []"
| "join [s] = s"
| "join (s # t # ss) = s @ CHR '','' # join (t # ss)"

fun ToString :: "runtime \<Rightarrow> json \<Rightarrow> exn + string"
  and ToString_elements :: "runtime \<Rightarrow> json list \<Rightarrow> exn + string list" where
  "ToString rt JNull = Inr ''null''"
| "ToString rt (JBool b) = Inr (if b then ''true'' else ''false'')"
| "ToString rt (JNum n) = Inr (NumberToString rt n)"
| "ToString rt (JStr s) = Inr s"
| "ToString rt (JArr xs) =
     (case ToString_elements rt xs of Inl e \<Rightarrow> Inl e | Inr ss \<Rightarrow> Inr (join ss))"
| "ToString rt (JObj kvs) =
     (if member kvs ''toString'' \<noteq> None then Inl TypeError else Inr ''[object Object]'')"
| "ToString_elements rt [] = Inr []"
| "ToString_elements rt (x # xs) =
     (case (if x = JNull then Inr [] else ToString rt x) of
        Inl e \<Rightarrow> Inl e
      | Inr s \<Rightarrow>
          (case ToString_elements rt xs of Inl e \<Rightarrow> Inl e | Inr ss \<Rightarrow> Inr (s # ss)))"

fun ToNumber :: "runtime \<Rightarrow> json option \<Rightarrow> exn + number" where
  "ToNumber rt None = Inr NaN"
| "ToNumber rt (Some JNull) = Inr (Num 0)"
| "ToNumber rt (Some (JBool b)) = Inr (Num (if b then 1 else 0))"
| "ToNumber rt (Some (JNum n)) = Inr n"
| "ToNumber rt (Some v) =
     (case ToString rt v of Inl e \<Rightarrow> Inl e | Inr s \<Rightarrow> Inr (StringToNumber rt s))"

text \<open>
  The decision of the last lines of \<^verbatim>\<open>classifyWaste\<close>: the threshold test, which
  may throw in the conversion, then the switch, whose cases compare with \<^verbatim>\<open>===\<close>.
\<close>

definition decide :: "runtime \<Rightarrow> json option \<Rightarrow> json option \<Rightarrow> exn + WasteType" where
  "decide rt classification confidence =
     (case ToNumber rt confidence of
        Inl e \<Rightarrow> Inl e
      | Inr n \<Rightarrow>
          Inr (if js_lt n (Num (3 / 4)) then UNKNOWN
               else if classification = Some (JStr (WasteType_value PLASTIC)) then PLASTIC
               else if classification = Some (JStr (WasteType_value NON_PLASTIC)) then NON_PLASTIC
               else UNKNOWN))"

text \<open>
  \<^verbatim>\<open>JSON.parse(response.text)\<close>: an undefined text is converted to the string
  "undefined", which is no JSON text.
\<close>

definition parseText :: "runtime \<Rightarrow> string option \<Rightarrow> exn + json" where
  "parseText rt t = (case t of None \<Rightarrow> Inl SyntaxError | Some s \<Rightarrow> JSON_parse rt s)"

text \<open>
  The call returns what it did outside the program and either the exception that
  left it or the category. There is no \<^verbatim>\<open>try\<close> in the function: the first exception
  ends it.
\<close>

fun classifyWaste :: "runtime \<Rightarrow> HTMLVideoElement option \<Rightarrow> action list \<times> (exn + WasteType)" where
  "classifyWaste rt None = ([], Inr UNKNOWN)"
| "classifyWaste rt (Some videoElement) =
     (if videoWidth videoElement = 0 \<or> videoHeight videoElement = 0 then ([], Inr UNKNOWN)
      else
        (case captureFrame rt videoElement of
           Inl e \<Rightarrow> ([CaptureFrame], Inl e)
         | Inr base64Image \<Rightarrow>
             (case generateContent rt base64Image of
                Inl e \<Rightarrow> ([CaptureFrame, RemoteRequest base64Image], Inl e)
              | Inr responseText \<Rightarrow>
                  ([CaptureFrame, RemoteRequest base64Image],
                   (case parseText rt responseText of
                      Inl e \<Rightarrow> Inl e
                    | Inr resultJson \<Rightarrow>
                        (case destructure resultJson of
                           Inl e \<Rightarrow> Inl e
                         | Inr (classification, confidence) \<Rightarrow>
                             decide rt classification confidence))))))"

text \<open>
  \<^verbatim>\<open>classificationSchema\<close>: an object whose member \<^verbatim>\<open>classification\<close> is one of the
  three strings and whose member \<^verbatim>\<open>confidence\<close> is a number, both required.
\<close>

definition classificationSchema :: "json \<Rightarrow> bool" where
  "classificationSchema j =
     (case j of
        JObj kvs \<Rightarrow>
          (case member kvs ''classification'' of
             Some (JStr s) \<Rightarrow> s \<in> set [''PLASTIC'', ''NON_PLASTIC'', ''UNKNOWN'']
           | _ \<Rightarrow> False) \<and>
          (case member kvs ''confidence'' of Some (JNum n) \<Rightarrow> True | _ \<Rightarrow> False)
      | _ \<Rightarrow> False)"


section \<open>Session controller (App.tsx)\<close>

subsection \<open>The platform: streams, timers, rejections\<close>

text \<open>
  A media stream is an object with an identity and a list of tracks. A handle of
  \<^verbatim>\<open>setInterval\<close> is a positive integer, so the test \<^verbatim>\<open>if (ref.current)\<close> on a handle
  asks whether it is null: \<open>Handle n\<close> is the handle given after \<open>n\<close> others.
  \<^verbatim>\<open>getUserMedia\<close> rejects with a DOMException, which has a name, or with anything else.
\<close>

record MediaStream =
  streamId :: nat
  getTracks :: "nat list"

datatype handle = Handle nat

datatype thrown = DOMException string | Thrown

datatype call = SetInterval handle | ClearInterval handle | TrackStop nat

subsection \<open>The component's state\<close>

text \<open>
  The five state variables and the two refs of the component; then what the page
  holds for it: the running intervals, each with the value of \<^verbatim>\<open>classificationError\<close>
  that its callback closed over, the next handle, the tracks that were stopped, the
  calls made to the platform in order, the classification calls awaiting their
  answer (each with the closed-over value of the callback that made it), the number
  of camera requests awaiting theirs; and what React remembers of the last commit:
  the dependencies of the two effects. The first effect depends on \<^verbatim>\<open>isCameraActive\<close>
  and on \<^verbatim>\<open>startClassification\<close>, which \<^verbatim>\<open>useCallback\<close> renews exactly when
  \<^verbatim>\<open>classificationError\<close> changes; \<^verbatim>\<open>stopClassification\<close> is never renewed. The video
  element is rendered, and \<^verbatim>\<open>videoRef.current\<close> set, when \<^verbatim>\<open>isCameraActive && stream\<close>.
\<close>

record app =
  isCameraActive :: bool
  stream :: "MediaStream option"
  classification :: WasteType
  error :: "string option"
  classificationError :: "string option"
  videoRef :: bool
  classificationIntervalRef :: "handle option"
  timers :: "(handle \<times> string option) list"
  nextHandle :: nat
  stoppedTracks :: "nat set"
  calls :: "call list"
  inFlight :: "string option list"
  acquiring :: nat
  effectDeps :: "bool \<times> string option"
  streamDeps :: "MediaStream option"

definition clearInterval :: "handle \<Rightarrow> app \<Rightarrow> app" where
  "clearInterval h s =
     s\<lparr>timers := filter (\<lambda>(k, c). k \<noteq> h) (timers s),
       calls := calls s @ [ClearInterval h]\<rparr>"

definition setInterval :: "string option \<Rightarrow> app \<Rightarrow> handle \<times> app" where
  "setInterval c s =
     (Handle (nextHandle s),
      s\<lparr>timers := timers s @ [(Handle (nextHandle s), c)],
        nextHandle := Suc (nextHandle s),
        calls := calls s @ [SetInterval (Handle (nextHandle s))]\<rparr>)"

text \<open>\<^verbatim>\<open>stream.getTracks().forEach(track => track.stop())\<close>\<close>

definition stopTracks :: "MediaStream \<Rightarrow> app \<Rightarrow> app" where
  "stopTracks ms s =
     s\<lparr>stoppedTracks := stoppedTracks s \<union> set (getTracks ms),
       calls := calls s @ map TrackStop (getTracks ms)\<rparr>"

text \<open>\<^verbatim>\<open>if (classificationError)\<close> on a string or null: the empty string is falsy too.\<close>

fun truthy :: "string option \<Rightarrow> bool" where
  "truthy None = False"
| "truthy (Some s) = (s \<noteq> [])"

subsection \<open>The callbacks\<close>

definition stopClassification :: "app \<Rightarrow> app" where
  "stopClassification s =
     (case classificationIntervalRef s of
        None \<Rightarrow> s
      | Some h \<Rightarrow> (clearInterval h s)\<lparr>classificationIntervalRef := None\<rparr>)"

text \<open>
  \<^verbatim>\<open>startClassification\<close> runs in the commit of the render that made it, so the
  callback it hands to \<^verbatim>\<open>setInterval\<close> closes over the \<^verbatim>\<open>classificationError\<close> of the
  state it runs in.
\<close>

definition startClassification :: "app \<Rightarrow> app" where
  "startClassification s =
     (let s1 = stopClassification s;
          (h, s2) = setInterval (classificationError s1) s1
      in s2\<lparr>classificationIntervalRef := Some h\<rparr>)"

text \<open>
  The interval callback is asynchronous. Up to its \<^verbatim>\<open>await\<close> it tests
  \<^verbatim>\<open>videoRef.current\<close> and calls \<^verbatim>\<open>classifyWaste\<close>: \<open>tick h\<close> is interval \<open>h\<close> firing,
  which puts a call in flight. When the call settles the callback goes on with the
  outcome and with the \<^verbatim>\<open>classificationError\<close> it closed over: \<open>tick_resume\<close>.
\<close>

definition tick :: "handle \<Rightarrow> app \<Rightarrow> app" where
  "tick h s =
     (case map_of (timers s) h of
        None \<Rightarrow> s
      | Some c \<Rightarrow> if videoRef s then s\<lparr>inFlight := inFlight s @ [c]\<rparr> else s)"

definition tick_resume :: "string option \<Rightarrow> exn + WasteType \<Rightarrow> app \<Rightarrow> app" where
  "tick_resume c outcome s =
     (case outcome of
        Inr result \<Rightarrow>
          (let s1 = s\<lparr>classification := result\<rparr>
           in if truthy c then s1\<lparr>classificationError := None\<rparr> else s1)
      | Inl err \<Rightarrow>
          s\<lparr>classificationError :=
               Some ''Classification failed. Please check your network connection.'',
            classification := UNKNOWN\<rparr>)"

text \<open>The \<open>i\<close>-th call in flight settles, having run on the element \<open>v\<close> in \<open>rt\<close>.\<close>

definition settle :: "nat \<Rightarrow> runtime \<Rightarrow> HTMLVideoElement \<Rightarrow> app \<Rightarrow> app" where
  "settle i rt v s =
     (if i < length (inFlight s)
      then tick_resume (inFlight s ! i) (snd (classifyWaste rt (Some v)))
             (s\<lparr>inFlight := take i (inFlight s) @ drop (Suc i) (inFlight s)\<rparr>)
      else s)"

text \<open>
  \<^verbatim>\<open>startCamera\<close> is asynchronous too: \<open>startCamera\<close> is the part up to the \<^verbatim>\<open>await\<close> of
  \<^verbatim>\<open>getUserMedia\<close>, \<open>startCamera_resume\<close> the part after it, on the stream or on what
  was thrown.
\<close>

definition cameraErrorMessage :: "thrown \<Rightarrow> string" where
  "cameraErrorMessage err =
     (case err of
        DOMException name \<Rightarrow>
          if name = ''NotAllowedError''
          then ''Camera access denied. Please enable camera permissions for this site in your browser settings.''
          else if name = ''NotFoundError''
          then ''No camera found. Please ensure a camera is connected and enabled.''
          else ''An unexpected error occurred while accessing the camera. Please try again.''
      | Thrown \<Rightarrow> ''An unexpected error occurred while accessing the camera. Please try again.'')"

definition startCamera :: "app \<Rightarrow> app" where
  "startCamera s =
     s\<lparr>error := None, classificationError := None, classification := UNKNOWN,
       acquiring := Suc (acquiring s)\<rparr>"

definition startCamera_resume :: "thrown + MediaStream \<Rightarrow> app \<Rightarrow> app" where
  "startCamera_resume r s =
     (case r of
        Inr mediaStream \<Rightarrow> s\<lparr>stream := Some mediaStream, isCameraActive := True\<rparr>
      | Inl err \<Rightarrow> s\<lparr>error := Some (cameraErrorMessage err), isCameraActive := False\<rparr>)"

text \<open>
  \<^verbatim>\<open>stopCamera\<close> is made anew by \<^verbatim>\<open>useCallback\<close> in every render in which
  \<^verbatim>\<open>stream\<close> changed, and the \<^verbatim>\<open>stream\<close> it tests and releases is the one it closed
  over: \<open>stopCamera_closed held\<close> is the callback of a render whose stream was
  \<open>held\<close>. Between events the state is the one of the last render, and
  \<open>stopCamera\<close> is the callback of that render. Called again with no render in
  between, the same callback still holds the stream it closed over.
\<close>

definition stopCamera_closed :: "MediaStream option \<Rightarrow> app \<Rightarrow> app" where
  "stopCamera_closed held s =
     (let s1 = stopClassification s;
          s2 = (case held of None \<Rightarrow> s1 | Some ms \<Rightarrow> stopTracks ms s1)
      in s2\<lparr>stream := None, isCameraActive := False, classification := UNKNOWN,
            classificationError := None\<rparr>)"

definition stopCamera :: "app \<Rightarrow> app" where
  "stopCamera s = stopCamera_closed (stream s) s"

subsection \<open>Commit: the effects\<close>

text \<open>
  After a handler has run React renders and commits: it sets \<^verbatim>\<open>videoRef\<close>, and for
  each effect whose dependencies changed it runs the cleanup of the last run (the
  first effect's \<^verbatim>\<open>stopClassification\<close>, then the second's release of the tracks of
  the stream of the last run), then the effect itself: the first starts or stops the
  classification, the second does nothing.
\<close>

definition commit :: "app \<Rightarrow> app" where
  "commit s =
     (let run1 = (effectDeps s \<noteq> (isCameraActive s, classificationError s));
          run2 = (streamDeps s \<noteq> stream s);
          s1 = (if run1 then stopClassification s else s);
          s2 = (if run2 then (case streamDeps s of None \<Rightarrow> s1 | Some ms \<Rightarrow> stopTracks ms s1)
                else s1);
          s3 = (if run1
                then (if isCameraActive s then startClassification s2
                      else stopClassification s2)
                else s2)
      in s3\<lparr>videoRef := (isCameraActive s \<and> stream s \<noteq> None),
            effectDeps := (isCameraActive s, classificationError s),
            streamDeps := stream s\<rparr>)"

subsection \<open>Events and reachable states\<close>

text \<open>
  The component after mounting, and what can happen to it: a click on the button
  (\<^verbatim>\<open>onClick={isCameraActive ? stopCamera : startCamera}\<close>), a camera request
  settling, an interval firing, a classification call settling. Each is followed by
  a commit.
\<close>

definition init :: app where
  "init =
     \<lparr>isCameraActive = False, stream = None, classification = UNKNOWN, error = None,
      classificationError = None, videoRef = False, classificationIntervalRef = None,
      timers = [], nextHandle = 0, stoppedTracks = {}, calls = [], inFlight = [],
      acquiring = 0, effectDeps = (False, None), streamDeps = None\<rparr>"

datatype event =
    Click
  | Acquired "thrown + MediaStream"
  | Tick handle
  | Settled nat runtime HTMLVideoElement

fun handler :: "event \<Rightarrow> app \<Rightarrow> app" where
  "handler Click s = (if isCameraActive s then stopCamera s else startCamera s)"
| "handler (Acquired r) s =
     (if acquiring s = 0 then s
      else startCamera_resume r (s\<lparr>acquiring := acquiring s - 1\<rparr>))"
| "handler (Tick h) s = tick h s"
| "handler (Settled i rt v) s = settle i rt v s"

definition step :: "event \<Rightarrow> app \<Rightarrow> app" where
  "step e s = commit (handler e s)"

fun run :: "event list \<Rightarrow> app \<Rightarrow> app" where
  "run [] s = s"
| "run (e # es) s = run es (step e s)"

inductive reachable :: "app \<Rightarrow> bool" where
  reachable_init: "reachable init"
| reachable_step: "reachable s \<Longrightarrow> reachable (step e s)"

subsection \<open>What holds between events\<close>

text \<open>
  \<open>settled\<close> is what every commit establishes: the ref holds a handle exactly when
  the camera is active, the only interval running is the one the ref holds, its
  callback closed over the current \<^verbatim>\<open>classificationError\<close>, and the remembered
  dependencies are current. \<open>coherent\<close> is what is left of it after a handler, before
  the commit.
\<close>

definition settled :: "app \<Rightarrow> bool" where
  "settled s =
     ((classificationIntervalRef s \<noteq> None) = isCameraActive s \<and>
      timers s =
        (case classificationIntervalRef s of
           None \<Rightarrow> []
         | Some h \<Rightarrow> [(h, classificationError s)]) \<and>
      effectDeps s = (isCameraActive s, classificationError s) \<and>
      streamDeps s = stream s \<and>
      videoRef s = (isCameraActive s \<and> stream s \<noteq> None))"

definition coherent :: "app \<Rightarrow> bool" where
  "coherent s =
     (timers s =
        (case classificationIntervalRef s of
           None \<Rightarrow> []
         | Some h \<Rightarrow> [(h, snd (effectDeps s))]) \<and>
      (classificationIntervalRef s \<noteq> None \<longrightarrow> fst (effectDeps s)) \<and>
      (classificationIntervalRef s = None \<longrightarrow> fst (effectDeps s) \<longrightarrow> \<not> isCameraActive s))"

text \<open>The remote requests among the actions of a call.\<close>

fun requests :: "action list \<Rightarrow> nat" where
  "requests [] = 0"
| "requests (CaptureFrame # as) = requests as"
| "requests (RemoteRequest d # as) = Suc (requests as)"


section \<open>Sample inputs\<close>

text \<open>
  A streaming video element and one that is not streaming yet; a runtime in which
  the service answers with a text that parses to a given value, and one in which the
  request is rejected (in neither is a string or a number converted, and their
  conversions stand for none in particular); four answers; a stream with two tracks.
\<close>

definition streaming :: HTMLVideoElement where
  "streaming = \<lparr>videoWidth = 640, videoHeight = 480\<rparr>"

definition unready :: HTMLVideoElement where
  "unready = \<lparr>videoWidth = 0, videoHeight = 480\<rparr>"

definition answering :: "json \<Rightarrow> runtime" where
  "answering j =
     \<lparr>getContext = True,
      toDataURL = (\<lambda>v. ''data:image/jpeg;base64,AAAA''),
      generateContent = (\<lambda>d. Inr (Some ''{}'')),
      JSON_parse = (\<lambda>t. Inr j),
      StringToNumber = (\<lambda>s. NaN),
      NumberToString = (\<lambda>n. ''NaN'')\<rparr>"

definition offline :: runtime where
  "offline =
     \<lparr>getContext = True,
      toDataURL = (\<lambda>v. ''data:image/jpeg;base64,AAAA''),
      generateContent = (\<lambda>d. Inl (Rejected ''Failed to fetch'')),
      JSON_parse = (\<lambda>t. Inl SyntaxError),
      StringToNumber = (\<lambda>s. NaN),
      NumberToString = (\<lambda>n. ''NaN'')\<rparr>"

definition plastic_sure :: json where
  "plastic_sure = JObj [(''classification'', JStr ''PLASTIC''), (''confidence'', JNum (Num (9 / 10)))]"

definition plastic_unsure :: json where
  "plastic_unsure = JObj [(''classification'', JStr ''PLASTIC''), (''confidence'', JNum (Num (1 / 2)))]"

definition plastic_bare :: json where
  "plastic_bare = JObj [(''classification'', JStr ''PLASTIC'')]"

definition plastic_object :: json where
  "plastic_object =
     JObj [(''classification'', JStr ''PLASTIC''),
           (''confidence'', JObj [(''valueOf'', JNull), (''toString'', JNull)])]"

definition rear_camera :: MediaStream where
  "rear_camera = \<lparr>streamId = 0, getTracks = [0, 1]\<rparr>"


text \<open>
  The camera started once; two whole cycles of start and stop; the camera started
  for the third time; and two calls in flight at once, of which the first fails and
  the second succeeds.
\<close>

definition filming :: app where
  "filming = run [Click, Acquired (Inr rear_camera)] init"

definition stopped_twice :: app where
  "stopped_twice =
     run [Click, Acquired (Inr rear_camera), Click, Click, Acquired (Inr rear_camera), Click] init"

definition overlapping :: "event list" where
  "overlapping =
     [Click, Acquired (Inr rear_camera), Tick (Handle 0), Tick (Handle 0),
      Settled 0 offline streaming, Settled 0 (answering plastic_sure) streaming]"


section \<open>The callbacks field by field\<close>

lemma stopClassification_fields [simp]:
  "classificationIntervalRef (stopClassification s) = None"
  "isCameraActive (stopClassification s) = isCameraActive s"
  "stream (stopClassification s) = stream s"
  "classification (stopClassification s) = classification s"
  "error (stopClassification s) = error s"
  "classificationError (stopClassification s) = classificationError s"
  "videoRef (stopClassification s) = videoRef s"
  "nextHandle (stopClassification s) = nextHandle s"
  "stoppedTracks (stopClassification s) = stoppedTracks s"
  "inFlight (stopClassification s) = inFlight s"
  "acquiring (stopClassification s) = acquiring s"
  "effectDeps (stopClassification s) = effectDeps s"
  "streamDeps (stopClassification s) = streamDeps s"
  by (simp_all add: stopClassification_def clearInterval_def split: option.splits)

lemma stopClassification_timers:
  "timers (stopClassification s) =
     (case classificationIntervalRef s of
        None \<Rightarrow> timers s
      | Some h \<Rightarrow> filter (\<lambda>(k, c). k \<noteq> h) (timers s))"
  by (simp add: stopClassification_def clearInterval_def split: option.splits)

lemma stopClassification_calls:
  "calls (stopClassification s) =
     calls s @ (case classificationIntervalRef s of None \<Rightarrow> [] | Some h \<Rightarrow> [ClearInterval h])"
  by (simp add: stopClassification_def clearInterval_def split: option.splits)

lemma stopClassification_idle:
  "classificationIntervalRef s = None \<Longrightarrow> stopClassification s = s"
  by (simp add: stopClassification_def)

lemma startClassification_fields [simp]:
  "classificationIntervalRef (startClassification s) = Some (Handle (nextHandle s))"
  "isCameraActive (startClassification s) = isCameraActive s"
  "stream (startClassification s) = stream s"
  "classification (startClassification s) = classification s"
  "error (startClassification s) = error s"
  "classificationError (startClassification s) = classificationError s"
  "videoRef (startClassification s) = videoRef s"
  "nextHandle (startClassification s) = Suc (nextHandle s)"
  "stoppedTracks (startClassification s) = stoppedTracks s"
  "inFlight (startClassification s) = inFlight s"
  "acquiring (startClassification s) = acquiring s"
  "effectDeps (startClassification s) = effectDeps s"
  "streamDeps (startClassification s) = streamDeps s"
  by (simp_all add: startClassification_def setInterval_def Let_def)

lemma startClassification_timers:
  "timers (startClassification s) =
     timers (stopClassification s) @ [(Handle (nextHandle s), classificationError s)]"
  by (simp add: startClassification_def setInterval_def Let_def)

lemma startClassification_calls:
  "calls (startClassification s) =
     calls (stopClassification s) @ [SetInterval (Handle (nextHandle s))]"
  by (simp add: startClassification_def setInterval_def Let_def)

lemma stopTracks_fields [simp]:
  "classificationIntervalRef (stopTracks ms s) = classificationIntervalRef s"
  "isCameraActive (stopTracks ms s) = isCameraActive s"
  "stream (stopTracks ms s) = stream s"
  "classification (stopTracks ms s) = classification s"
  "error (stopTracks ms s) = error s"
  "classificationError (stopTracks ms s) = classificationError s"
  "videoRef (stopTracks ms s) = videoRef s"
  "timers (stopTracks ms s) = timers s"
  "nextHandle (stopTracks ms s) = nextHandle s"
  "stoppedTracks (stopTracks ms s) = stoppedTracks s \<union> set (getTracks ms)"
  "calls (stopTracks ms s) = calls s @ map TrackStop (getTracks ms)"
  "inFlight (stopTracks ms s) = inFlight s"
  "acquiring (stopTracks ms s) = acquiring s"
  "effectDeps (stopTracks ms s) = effectDeps s"
  "streamDeps (stopTracks ms s) = streamDeps s"
  by (simp_all add: stopTracks_def)


lemma commit_fields [simp]:
  "isCameraActive (commit s) = isCameraActive s"
  "stream (commit s) = stream s"
  "classification (commit s) = classification s"
  "error (commit s) = error s"
  "classificationError (commit s) = classificationError s"
  "videoRef (commit s) = (isCameraActive s \<and> stream s \<noteq> None)"
  "inFlight (commit s) = inFlight s"
  "acquiring (commit s) = acquiring s"
  "effectDeps (commit s) = (isCameraActive s, classificationError s)"
  "streamDeps (commit s) = stream s"
  by (simp_all add: commit_def Let_def split: option.splits)

lemma commit_unchanged:
  "effectDeps s = (isCameraActive s, classificationError s) \<Longrightarrow>
   classificationIntervalRef (commit s) = classificationIntervalRef s \<and>
   timers (commit s) = timers s \<and> nextHandle (commit s) = nextHandle s"
  by (simp add: commit_def Let_def split: option.splits)

lemma commit_changed:
  "effectDeps s \<noteq> (isCameraActive s, classificationError s) \<Longrightarrow>
   classificationIntervalRef (commit s) =
     (if isCameraActive s then Some (Handle (nextHandle s)) else None) \<and>
   timers (commit s) =
     timers (stopClassification s) @
     (if isCameraActive s then [(Handle (nextHandle s), classificationError s)] else [])"
  by (simp add: commit_def Let_def startClassification_timers stopClassification_timers
      split: option.splits)


section \<open>Every reachable state is settled\<close>

lemma commit_settled:
  assumes "coherent s"
  shows "settled (commit s)"
proof (cases "effectDeps s = (isCameraActive s, classificationError s)")
  case True
  with assms commit_unchanged [OF True] show ?thesis
    by (auto simp: settled_def coherent_def split: option.splits)
next
  case False
  from assms have "timers (stopClassification s) = []"
    by (auto simp: coherent_def stopClassification_timers split: option.splits)
  with commit_changed [OF False] show ?thesis
    by (simp add: settled_def)
qed

lemma settled_coherent: "settled s \<Longrightarrow> coherent s"
  by (auto simp: settled_def coherent_def split: option.splits)

lemma stopCamera_coherent: "settled s \<Longrightarrow> coherent (stopCamera s)"
  by (auto simp: settled_def coherent_def stopCamera_def stopCamera_closed_def Let_def stopClassification_timers
      split: option.splits)

lemma startCamera_coherent: "settled s \<Longrightarrow> coherent (startCamera s)"
  by (auto simp: settled_def coherent_def startCamera_def split: option.splits)

lemma startCamera_resume_coherent: "settled s \<Longrightarrow> coherent (startCamera_resume r (s\<lparr>acquiring := n\<rparr>))"
  by (auto simp: settled_def coherent_def startCamera_resume_def split: option.splits sum.splits)

lemma tick_coherent: "settled s \<Longrightarrow> coherent (tick h s)"
  by (auto simp: settled_def coherent_def tick_def split: option.splits)

lemma tick_resume_coherent: "settled s \<Longrightarrow> coherent (tick_resume c outcome (s\<lparr>inFlight := fs\<rparr>))"
  by (auto simp: settled_def coherent_def tick_resume_def Let_def split: option.splits sum.splits)

lemma handler_coherent: "settled s \<Longrightarrow> coherent (handler e s)"
  by (cases e)
    (simp_all add: stopCamera_coherent startCamera_coherent startCamera_resume_coherent
      tick_coherent tick_resume_coherent settled_coherent settle_def)

lemma settled_init: "settled init"
  by (simp add: settled_def init_def)

lemma settled_step: "settled s \<Longrightarrow> settled (step e s)"
  by (simp add: step_def commit_settled handler_coherent)

lemma reachable_settled: "reachable s \<Longrightarrow> settled s"
  by (induction rule: reachable.induct) (simp_all add: settled_init settled_step)

lemma reachable_run: "reachable s \<Longrightarrow> reachable (run es s)"
  by (induction es arbitrary: s) (simp_all add: reachable_step)


section \<open>Properties of the result display\<close>

text \<open>
  Claim C9. The result display is a total function of the classification state and of
  nothing else: PLASTIC gives the orange "Plastic Waste" rendering, NON_PLASTIC the
  green "Non-Plastic Waste" rendering, and every other value the gray "Scanning..."
  rendering; the three renderings differ in label, style and icon.
\<close>

theorem getResultDetails_mapping:
  "getResultDetails r =
     (if r = PLASTIC then
        \<lparr>text' = ''Plastic Waste'',
         style = ''bg-orange-500/20 border-orange-500 text-orange-300'',
         icon = PlasticIcon\<rparr>
      else if r = NON_PLASTIC then
        \<lparr>text' = ''Non-Plastic Waste'',
         style = ''bg-green-500/20 border-green-500 text-green-300'',
         icon = NonPlasticIcon\<rparr>
      else
        \<lparr>text' = ''Scanning...'',
         style = ''bg-gray-700/50 border-gray-600 text-gray-400'',
         icon = UnknownIcon\<rparr>) \<and>
   (text' (getResultDetails r) = text' (getResultDetails r') \<longleftrightarrow> r = r') \<and>
   (style (getResultDetails r) = style (getResultDetails r') \<longleftrightarrow> r = r') \<and>
   (icon (getResultDetails r) = icon (getResultDetails r') \<longleftrightarrow> r = r')"
  by (cases r; cases r') simp_all

theorem getResultDetails_mapping_witness:
  "text' (getResultDetails UNKNOWN) = ''Scanning...'' \<and>
   icon (getResultDetails UNKNOWN) = UnknownIcon \<and>
   text' (getResultDetails PLASTIC) \<noteq> text' (getResultDetails UNKNOWN)"
  using getResultDetails_mapping [of UNKNOWN PLASTIC] getResultDetails_mapping [of PLASTIC UNKNOWN]
  by simp


section \<open>Properties of the classification client\<close>

text \<open>
  Claim C1. When the surface is ready, the frame is captured, the request is answered
  and the answer parses to an object whose classification is the string \<open>label\<close> and
  whose confidence is the number \<open>confidence\<close>: a confidence below 0.75 gives UNKNOWN
  whatever the label; a confidence of at least 0.75 gives PLASTIC for the label
  PLASTIC, NON_PLASTIC for the label NON_PLASTIC, and UNKNOWN for any other label.
\<close>

theorem classifyWaste_decision:
  assumes "videoWidth v \<noteq> 0" and "videoHeight v \<noteq> 0"
    and "captureFrame rt v = Inr img"
    and "generateContent rt img = Inr t"
    and "parseText rt t = Inr (JObj kvs)"
    and "member kvs ''classification'' = Some (JStr label)"
    and "member kvs ''confidence'' = Some (JNum confidence)"
  shows "(js_lt confidence (Num (3 / 4)) \<longrightarrow>
            snd (classifyWaste rt (Some v)) = Inr UNKNOWN) \<and>
         (js_ge confidence (Num (3 / 4)) \<and> label = ''PLASTIC'' \<longrightarrow>
            snd (classifyWaste rt (Some v)) = Inr PLASTIC) \<and>
         (js_ge confidence (Num (3 / 4)) \<and> label = ''NON_PLASTIC'' \<longrightarrow>
            snd (classifyWaste rt (Some v)) = Inr NON_PLASTIC) \<and>
         (js_ge confidence (Num (3 / 4)) \<and> label \<noteq> ''PLASTIC'' \<and> label \<noteq> ''NON_PLASTIC'' \<longrightarrow>
            snd (classifyWaste rt (Some v)) = Inr UNKNOWN)"
proof -
  have res: "snd (classifyWaste rt (Some v)) =
      decide rt (Some (JStr label)) (Some (JNum confidence))"
    using assms by simp
  have ge: "js_ge confidence (Num (3 / 4)) \<Longrightarrow> \<not> js_lt confidence (Num (3 / 4))"
    by (cases confidence) simp_all
  show ?thesis
    unfolding res by (auto simp: decide_def dest: ge)
qed

theorem classifyWaste_decision_witness:
  "snd (classifyWaste (answering plastic_sure) (Some streaming)) = Inr PLASTIC \<and>
   snd (classifyWaste (answering plastic_unsure) (Some streaming)) = Inr UNKNOWN"
  using classifyWaste_decision [of streaming "answering plastic_sure" "Some ''AAAA''"
      "Some ''{}''"
      "[(''classification'', JStr ''PLASTIC''), (''confidence'', JNum (Num (9 / 10)))]"
      "''PLASTIC''" "Num (9 / 10)"]
    classifyWaste_decision [of streaming "answering plastic_unsure" "Some ''AAAA''"
      "Some ''{}''"
      "[(''classification'', JStr ''PLASTIC''), (''confidence'', JNum (Num (1 / 2)))]"
      "''PLASTIC''" "Num (1 / 2)"]
  by (simp add: streaming_def answering_def plastic_sure_def plastic_unsure_def
      captureFrame_def parseText_def member_def)

text \<open>
  Claim C2. On an absent video surface, or one whose intrinsic width or height is
  zero, the call returns UNKNOWN having done nothing outside the program: no frame
  capture, no remote request.
\<close>

theorem classifyWaste_not_ready:
  assumes "v = None \<or> (\<exists>e. v = Some e \<and> (videoWidth e = 0 \<or> videoHeight e = 0))"
  shows "classifyWaste rt v = ([], Inr UNKNOWN)"
  using assms by (cases v) auto

theorem classifyWaste_not_ready_witness:
  "classifyWaste offline (Some unready) = ([], Inr UNKNOWN)"
  using classifyWaste_not_ready [of "Some unready" offline] by (simp add: unready_def)

text \<open>
  Claim C8, as stated, fails: the client never compares the answer with the schema.
  An answer that lacks the required confidence violates the schema, and the call
  returns PLASTIC for it, no error.
\<close>

theorem classifyWaste_schema_violation_accepted:
  "\<not> classificationSchema plastic_bare \<and>
   classifyWaste (answering plastic_bare) (Some streaming) =
     ([CaptureFrame, RemoteRequest (Some ''AAAA'')], Inr PLASTIC)"
  by (simp add: plastic_bare_def answering_def streaming_def classificationSchema_def
      member_def captureFrame_def parseText_def decide_def)

text \<open>
  Claim C8, amended. On a ready surface with a captured frame: a rejected request
  ends the call with that rejection, after the one request; so does an exception of
  \<^verbatim>\<open>JSON.parse\<close>; an answer that parses to null ends it with the TypeError of the
  destructuring. No call, on any input, makes more than one request. The answer is
  not compared with the schema: whatever else it parses to goes through the decision.
  An answer that is no object gives UNKNOWN; for an object, when the conversion of
  its confidence to a number throws, the call ends with that exception (a TypeError
  when the confidence is an object with a member named toString), and otherwise the
  threshold and the label decide.
\<close>

theorem classifyWaste_failures:
  assumes "videoWidth v \<noteq> 0" and "videoHeight v \<noteq> 0"
    and "captureFrame rt v = Inr img"
  shows "(generateContent rt img = Inl e \<longrightarrow>
            classifyWaste rt (Some v) = ([CaptureFrame, RemoteRequest img], Inl e)) \<and>
         (generateContent rt img = Inr t \<and> parseText rt t = Inl e \<longrightarrow>
            classifyWaste rt (Some v) = ([CaptureFrame, RemoteRequest img], Inl e)) \<and>
         (generateContent rt img = Inr t \<and> parseText rt t = Inr JNull \<longrightarrow>
            classifyWaste rt (Some v) = ([CaptureFrame, RemoteRequest img], Inl TypeError)) \<and>
         (generateContent rt img = Inr t \<and> parseText rt t = Inr j \<and> j \<noteq> JNull \<and>
          (\<forall>kvs. j \<noteq> JObj kvs) \<longrightarrow>
            classifyWaste rt (Some v) = ([CaptureFrame, RemoteRequest img], Inr UNKNOWN)) \<and>
         (generateContent rt img = Inr t \<and> parseText rt t = Inr (JObj kvs) \<and>
          ToNumber rt (member kvs ''confidence'') = Inl e \<longrightarrow>
            classifyWaste rt (Some v) = ([CaptureFrame, RemoteRequest img], Inl e)) \<and>
         (generateContent rt img = Inr t \<and> parseText rt t = Inr (JObj kvs) \<and>
          ToNumber rt (member kvs ''confidence'') = Inr n \<longrightarrow>
            classifyWaste rt (Some v) =
              ([CaptureFrame, RemoteRequest img],
               Inr (if js_lt n (Num (3 / 4)) then UNKNOWN
                    else if member kvs ''classification'' = Some (JStr ''PLASTIC'') then PLASTIC
                    else if member kvs ''classification'' = Some (JStr ''NON_PLASTIC'')
                    then NON_PLASTIC
                    else UNKNOWN))) \<and>
         (member kvs ''confidence'' = Some (JObj cs) \<and> member cs ''toString'' \<noteq> None \<longrightarrow>
            ToNumber rt (member kvs ''confidence'') = Inl TypeError) \<and>
         requests (fst (classifyWaste rt' v')) \<le> 1"
proof -
  have once: "requests (fst (classifyWaste rt' v')) \<le> 1"
    by (cases v') (auto split: sum.splits)
  have other: "generateContent rt img = Inr t \<and> parseText rt t = Inr j \<and> j \<noteq> JNull \<and>
      (\<forall>kvs. j \<noteq> JObj kvs) \<longrightarrow>
      classifyWaste rt (Some v) = ([CaptureFrame, RemoteRequest img], Inr UNKNOWN)"
    using assms by (cases j) (auto simp: decide_def)
  have thrown: "member kvs ''confidence'' = Some (JObj cs) \<and> member cs ''toString'' \<noteq> None \<longrightarrow>
      ToNumber rt (member kvs ''confidence'') = Inl TypeError"
    by auto
  from once other thrown assms show ?thesis
    by (simp add: decide_def)
qed

theorem classifyWaste_failures_witness:
  "classifyWaste offline (Some streaming) =
     ([CaptureFrame, RemoteRequest (Some ''AAAA'')], Inl (Rejected ''Failed to fetch'')) \<and>
   classifyWaste (answering plastic_object) (Some streaming) =
     ([CaptureFrame, RemoteRequest (Some ''AAAA'')], Inl TypeError) \<and>
   requests (fst (classifyWaste offline (Some streaming))) \<le> 1"
  using classifyWaste_failures [where v = streaming and rt = offline and img = "Some ''AAAA''"
      and e = "Rejected ''Failed to fetch''" and rt' = offline and v' = "Some streaming"]
    classifyWaste_failures [where v = streaming and rt = "answering plastic_object"
      and img = "Some ''AAAA''" and t = "Some ''{}''" and e = TypeError
      and kvs = "[(''classification'', JStr ''PLASTIC''),
                  (''confidence'', JObj [(''valueOf'', JNull), (''toString'', JNull)])]"
      and cs = "[(''valueOf'', JNull), (''toString'', JNull)]"]
  by (simp add: streaming_def offline_def answering_def plastic_object_def captureFrame_def
      parseText_def member_def)


section \<open>Properties of the session controller\<close>

subsection \<open>Stopping\<close>

lemma commit_stoppedTracks: "stoppedTracks s \<subseteq> stoppedTracks (commit s)"
  by (auto simp: commit_def Let_def split: option.splits)

lemma commit_ref_idle:
  "classificationIntervalRef s = None \<Longrightarrow> \<not> isCameraActive s \<Longrightarrow>
   classificationIntervalRef (commit s) = None"
  by (cases "effectDeps s = (isCameraActive s, classificationError s)")
    (simp_all add: commit_unchanged commit_changed)

lemma stopCamera_fields [simp]:
  "classificationIntervalRef (stopCamera s) = None"
  "stream (stopCamera s) = None"
  "isCameraActive (stopCamera s) = False"
  "classification (stopCamera s) = UNKNOWN"
  "classificationError (stopCamera s) = None"
  "error (stopCamera s) = error s"
  "effectDeps (stopCamera s) = effectDeps s"
  "streamDeps (stopCamera s) = streamDeps s"
  "nextHandle (stopCamera s) = nextHandle s"
  "inFlight (stopCamera s) = inFlight s"
  "acquiring (stopCamera s) = acquiring s"
  by (simp_all add: stopCamera_def stopCamera_closed_def Let_def split: option.splits)

lemma stopCamera_timers: "timers (stopCamera s) = timers (stopClassification s)"
  by (simp add: stopCamera_def stopCamera_closed_def Let_def split: option.splits)

lemma stopCamera_stoppedTracks:
  "stoppedTracks (stopCamera s) =
     stoppedTracks s \<union> (case stream s of None \<Rightarrow> {} | Some ms \<Rightarrow> set (getTracks ms))"
  by (simp add: stopCamera_def stopCamera_closed_def Let_def split: option.splits)

lemma stopCamera_calls:
  "calls (stopCamera s) =
     calls s @ (case classificationIntervalRef s of None \<Rightarrow> [] | Some h \<Rightarrow> [ClearInterval h]) @
     (case stream s of None \<Rightarrow> [] | Some ms \<Rightarrow> map TrackStop (getTracks ms))"
  by (simp add: stopCamera_def stopCamera_closed_def Let_def stopClassification_calls split: option.splits)

lemma settled_stop_timers: "settled s \<Longrightarrow> timers (stopClassification s) = []"
  by (auto simp: settled_def stopClassification_timers split: option.splits)

lemmas evals = step_def commit_def Let_def startCamera_def startCamera_resume_def stopCamera_def stopCamera_closed_def
  stopClassification_def startClassification_def clearInterval_def setInterval_def stopTracks_def
  tick_def settle_def tick_resume_def init_def rear_camera_def

lemma filming_state:
  "filming =
     \<lparr>isCameraActive = True, stream = Some rear_camera, classification = UNKNOWN,
      error = None, classificationError = None, videoRef = True,
      classificationIntervalRef = Some (Handle 0), timers = [(Handle 0, None)],
      nextHandle = 1, stoppedTracks = {}, calls = [SetInterval (Handle 0)],
      inFlight = [], acquiring = 0, effectDeps = (True, None),
      streamDeps = Some rear_camera\<rparr>"
  by (simp add: filming_def step_def commit_def Let_def startCamera_def startCamera_resume_def
      stopClassification_def startClassification_def setInterval_def init_def)

lemma reachable_filming: "reachable filming"
  unfolding filming_def by (rule reachable_run [OF reachable_init])

lemma reachable_stopped_twice: "reachable stopped_twice"
  unfolding stopped_twice_def by (rule reachable_run [OF reachable_init])

text \<open>
  Claim C3. After \<^verbatim>\<open>stopCamera\<close>, from any state, and still after the commit that
  follows it: the timer handle is null, every track of the stream that was held is
  stopped, the stream reference is null, the camera is not active, the
  classification is UNKNOWN and the classification error is null. The interval the
  handle named is no longer running; in a reachable state it was the only one, so
  none is running.
\<close>

theorem stopCamera_stops:
  assumes "s' = stopCamera s \<or> s' = commit (stopCamera s)"
  shows "classificationIntervalRef s' = None \<and>
         (\<forall>ms. stream s = Some ms \<longrightarrow> set (getTracks ms) \<subseteq> stoppedTracks s') \<and>
         stream s' = None \<and> \<not> isCameraActive s' \<and>
         classification s' = UNKNOWN \<and> classificationError s' = None \<and>
         (\<forall>h. classificationIntervalRef s = Some h \<longrightarrow> h \<notin> fst ` set (timers (stopCamera s))) \<and>
         (reachable s \<longrightarrow> timers s' = [])"
proof -
  have tracks: "\<forall>ms. stream s = Some ms \<longrightarrow> set (getTracks ms) \<subseteq> stoppedTracks (stopCamera s)"
    by (simp add: stopCamera_stoppedTracks)
  have gone: "\<forall>h. classificationIntervalRef s = Some h \<longrightarrow> h \<notin> fst ` set (timers (stopCamera s))"
    by (auto simp: stopCamera_timers stopClassification_timers)
  have idle: "reachable s \<Longrightarrow> timers (stopCamera s) = []"
    by (simp add: stopCamera_timers settled_stop_timers reachable_settled)
  have idle': "reachable s \<Longrightarrow> timers (commit (stopCamera s)) = []"
  proof -
    assume "reachable s"
    then have "settled (commit (stopCamera s))"
      by (simp add: commit_settled stopCamera_coherent reachable_settled)
    then show ?thesis
      by (simp add: settled_def commit_ref_idle)
  qed
  from assms show ?thesis
  proof
    assume "s' = stopCamera s"
    with tracks gone idle show ?thesis by simp
  next
    assume s': "s' = commit (stopCamera s)"
    have "stoppedTracks (stopCamera s) \<subseteq> stoppedTracks s'"
      unfolding s' by (rule commit_stoppedTracks)
    with tracks have "\<forall>ms. stream s = Some ms \<longrightarrow> set (getTracks ms) \<subseteq> stoppedTracks s'"
      by blast
    with gone idle' show ?thesis
      by (simp add: s' commit_ref_idle)
  qed
qed

theorem stopCamera_stops_witness:
  "classificationIntervalRef (stopCamera filming) = None \<and>
   set (getTracks rear_camera) \<subseteq> stoppedTracks (stopCamera filming) \<and>
   Handle 0 \<notin> fst ` set (timers (stopCamera filming)) \<and>
   timers (stopCamera filming) = []"
  using stopCamera_stops [of "stopCamera filming" filming] reachable_filming
  by (simp add: filming_state)

lemma commit_commit: "commit (commit s) = commit s"
proof -
  have "effectDeps (commit s) = (isCameraActive (commit s), classificationError (commit s))"
    and "streamDeps (commit s) = stream (commit s)"
    and "videoRef (commit s) = (isCameraActive (commit s) \<and> stream (commit s) \<noteq> None)"
    by simp_all
  then show ?thesis
    by (subst (1) commit_def) (simp add: Let_def)
qed

lemma stopCamera_idle:
  assumes "classificationIntervalRef s = None" and "stream s = None"
    and "\<not> isCameraActive s" and "classification s = UNKNOWN"
    and "classificationError s = None"
  shows "stopCamera s = s"
  using assms by (simp add: stopCamera_def stopCamera_closed_def stopClassification_idle)

lemma stopCamera_closed_again:
  "stopCamera_closed held (stopCamera_closed held s) =
     (stopCamera_closed held s)
       \<lparr>calls := calls (stopCamera_closed held s) @
          (case held of None \<Rightarrow> [] | Some ms \<Rightarrow> map TrackStop (getTracks ms))\<rparr>"
  by (cases held)
    (simp_all add: stopCamera_closed_def Let_def stopClassification_idle stopTracks_def)

text \<open>
  Claim C10. \<^verbatim>\<open>stopClassification\<close> and \<^verbatim>\<open>stopCamera\<close> are idempotent. A second
  \<^verbatim>\<open>stopClassification\<close> changes nothing. A second \<^verbatim>\<open>stopCamera\<close> from the state that
  the first one and its render left changes nothing: the handle and the stream are
  null and both guards fail. A second call of the same callback with no render in
  between changes nothing in the component or the page either, but the callback
  still holds the stream it closed over: the guard on the handle fails, the guard on
  the stream passes, and the tracks, stopped already, are stopped once more. None of
  the calls has an exception to raise.
\<close>

theorem stop_idempotent:
  "stopClassification (stopClassification s) = stopClassification s \<and>
   commit (stopCamera (commit (stopCamera s))) = commit (stopCamera s) \<and>
   stopCamera (commit (stopCamera s)) = commit (stopCamera s) \<and>
   stopCamera_closed held (stopCamera_closed held s) =
     (stopCamera_closed held s)
       \<lparr>calls := calls (stopCamera_closed held s) @
          (case held of None \<Rightarrow> [] | Some ms \<Rightarrow> map TrackStop (getTracks ms))\<rparr> \<and>
   stoppedTracks (stopCamera_closed held (stopCamera_closed held s)) =
     stoppedTracks (stopCamera_closed held s) \<and>
   timers (stopCamera_closed held (stopCamera_closed held s)) =
     timers (stopCamera_closed held s)"
proof -
  have "stopCamera (commit (stopCamera s)) = commit (stopCamera s)"
    by (rule stopCamera_idle) (simp_all add: commit_ref_idle)
  then show ?thesis
    by (simp add: stopClassification_idle commit_commit stopCamera_closed_again)
qed

theorem stop_idempotent_witness:
  "stopClassification (stopClassification filming) = stopClassification filming \<and>
   commit (stopCamera (commit (stopCamera filming))) = commit (stopCamera filming) \<and>
   calls (stopCamera filming) =
     [SetInterval (Handle 0), ClearInterval (Handle 0), TrackStop 0, TrackStop 1] \<and>
   calls (stopCamera_closed (Some rear_camera) (stopCamera_closed (Some rear_camera) filming)) =
     [SetInterval (Handle 0), ClearInterval (Handle 0), TrackStop 0, TrackStop 1,
      TrackStop 0, TrackStop 1]"
proof -
  note twice = stop_idempotent [of filming "Some rear_camera"]
  have first: "calls (stopCamera_closed (Some rear_camera) filming) =
      [SetInterval (Handle 0), ClearInterval (Handle 0), TrackStop 0, TrackStop 1]"
    by (simp add: stopCamera_closed_def Let_def stopClassification_def clearInterval_def
        stopTracks_def filming_state rear_camera_def)
  have same: "calls (stopCamera filming) = calls (stopCamera_closed (Some rear_camera) filming)"
    by (simp add: stopCamera_def filming_state)
  from twice have "calls (stopCamera_closed (Some rear_camera)
        (stopCamera_closed (Some rear_camera) filming)) =
      calls (stopCamera_closed (Some rear_camera) filming) @ map TrackStop (getTracks rear_camera)"
    by simp
  with first have second: "calls (stopCamera_closed (Some rear_camera)
        (stopCamera_closed (Some rear_camera) filming)) =
      [SetInterval (Handle 0), ClearInterval (Handle 0), TrackStop 0, TrackStop 1,
       TrackStop 0, TrackStop 1]"
    by (simp add: rear_camera_def)
  from twice first same second show ?thesis
    by (simp add: commit_commit)
qed

subsection \<open>Starting\<close>

lemma startCamera_fields [simp]:
  "classification (startCamera s) = UNKNOWN"
  "error (startCamera s) = None"
  "classificationError (startCamera s) = None"
  "isCameraActive (startCamera s) = isCameraActive s"
  "stream (startCamera s) = stream s"
  "classificationIntervalRef (startCamera s) = classificationIntervalRef s"
  "timers (startCamera s) = timers s"
  "nextHandle (startCamera s) = nextHandle s"
  "calls (startCamera s) = calls s"
  "acquiring (startCamera s) = Suc (acquiring s)"
  "streamDeps (startCamera s) = streamDeps s"
  "effectDeps (startCamera s) = effectDeps s"
  by (simp_all add: startCamera_def)

lemma commit_idle:
  assumes "classificationIntervalRef s = None" and "\<not> isCameraActive s"
    and "streamDeps s = stream s"
  shows "classificationIntervalRef (commit s) = None \<and> timers (commit s) = timers s \<and>
         nextHandle (commit s) = nextHandle s \<and> calls (commit s) = calls s"
  using assms by (simp add: commit_def Let_def stopClassification_idle)

lemma commit_start:
  assumes "classificationIntervalRef s = None" and "isCameraActive s"
    and "\<not> fst (effectDeps s)"
  shows "classificationIntervalRef (commit s) = Some (Handle (nextHandle s)) \<and>
         timers (commit s) = timers s @ [(Handle (nextHandle s), classificationError s)]"
proof -
  from assms have "effectDeps s \<noteq> (isCameraActive s, classificationError s)"
    by (cases "effectDeps s") auto
  from commit_changed [OF this] assms show ?thesis
    by (simp add: stopClassification_idle)
qed

lemma click_idle:
  assumes "settled s" and "\<not> isCameraActive s"
  shows "step Click s = commit (startCamera s)"
    and "classificationIntervalRef (step Click s) = None"
    and "timers (step Click s) = []"
    and "nextHandle (step Click s) = nextHandle s"
    and "calls (step Click s) = calls s"
    and "acquiring (step Click s) = Suc (acquiring s)"
    and "stream (step Click s) = stream s"
    and "\<not> isCameraActive (step Click s)"
proof -
  from assms have idle: "classificationIntervalRef s = None" "timers s = []" "streamDeps s = stream s"
    by (auto simp: settled_def)
  show eq: "step Click s = commit (startCamera s)"
    using assms by (simp add: step_def)
  from idle assms(2) commit_idle [of "startCamera s"]
  show "classificationIntervalRef (step Click s) = None"
    and "timers (step Click s) = []"
    and "nextHandle (step Click s) = nextHandle s"
    and "calls (step Click s) = calls s"
    by (simp_all add: eq)
  show "acquiring (step Click s) = Suc (acquiring s)"
    and "stream (step Click s) = stream s"
    and "\<not> isCameraActive (step Click s)"
    using assms(2) by (simp_all add: eq)
qed

lemma step_Acquired:
  "acquiring x \<noteq> 0 \<Longrightarrow>
   step (Acquired r) x = commit (startCamera_resume r (x\<lparr>acquiring := acquiring x - 1\<rparr>))"
  by (simp add: step_def)

text \<open>
  Claim C4. Every call of \<^verbatim>\<open>startCamera\<close> sets the classification to UNKNOWN and both
  error slots to null before it awaits the camera. Called from a reachable state in
  which the camera is off (the only states in which the button calls it), it leaves
  no interval running while it waits, so no tick can fire; when the camera is
  granted the stream is stored, the camera is active, and the commit starts the one
  interval, which finds the classification UNKNOWN and both error slots null.
\<close>

theorem startCamera_starts:
  assumes "reachable s" and "\<not> isCameraActive s"
  shows "classification (startCamera s0) = UNKNOWN \<and> error (startCamera s0) = None \<and>
         classificationError (startCamera s0) = None \<and>
         classification (step Click s) = UNKNOWN \<and> error (step Click s) = None \<and>
         classificationError (step Click s) = None \<and> timers (step Click s) = [] \<and>
         stream (step (Acquired (Inr ms)) (step Click s)) = Some ms \<and>
         isCameraActive (step (Acquired (Inr ms)) (step Click s)) \<and>
         classificationIntervalRef (step (Acquired (Inr ms)) (step Click s)) =
           Some (Handle (nextHandle s)) \<and>
         timers (step (Acquired (Inr ms)) (step Click s)) = [(Handle (nextHandle s), None)] \<and>
         classification (step (Acquired (Inr ms)) (step Click s)) = UNKNOWN \<and>
         error (step (Acquired (Inr ms)) (step Click s)) = None \<and>
         classificationError (step (Acquired (Inr ms)) (step Click s)) = None"
proof -
  let ?s1 = "step Click s"
  let ?h = "startCamera_resume (Inr ms) (?s1\<lparr>acquiring := acquiring ?s1 - 1\<rparr>)"
  from assms have st: "settled s" by (simp add: reachable_settled)
  note c = click_idle [OF st assms(2)]
  have s1: "classification ?s1 = UNKNOWN" "error ?s1 = None" "classificationError ?s1 = None"
    by (simp_all add: c(1))
  have "settled ?s1" using st by (rule settled_step)
  then have deps: "effectDeps ?s1 = (False, None)"
    using c(8) s1 by (simp add: settled_def)
  have s2: "step (Acquired (Inr ms)) ?s1 = commit ?h"
    by (rule step_Acquired) (simp add: c(6))
  have h: "classificationIntervalRef ?h = None" "isCameraActive ?h" "\<not> fst (effectDeps ?h)"
    "timers ?h = []" "nextHandle ?h = nextHandle s" "classificationError ?h = None"
    "stream ?h = Some ms" "classification ?h = UNKNOWN" "error ?h = None"
    using c(2-8) s1 deps by (simp_all add: startCamera_resume_def)
  from commit_start [OF h(1-3)] h s1 c(3) show ?thesis
    by (simp add: s2)
qed

theorem startCamera_starts_witness:
  "isCameraActive (step (Acquired (Inr rear_camera)) (step Click init)) \<and>
   stream (step (Acquired (Inr rear_camera)) (step Click init)) = Some rear_camera \<and>
   timers (step (Acquired (Inr rear_camera)) (step Click init)) = [(Handle 0, None)] \<and>
   classification (step (Acquired (Inr rear_camera)) (step Click init)) = UNKNOWN"
  using startCamera_starts [OF reachable_init, where ms = rear_camera and ?s0.0 = init]
  by (simp add: init_def)




subsection \<open>The polling loop\<close>

text \<open>
  Claim C6. In every reachable state the timer handle is set exactly when the camera
  is active, and the interval it names is the only one running, so at most one runs.
  \<^verbatim>\<open>startClassification\<close> clears the interval the handle names before it sets the new
  one, after which only the new one runs. \<^verbatim>\<open>stopCamera\<close> clears the interval before it
  stops the tracks of the stream.
\<close>

theorem polling_invariant:
  assumes "reachable s"
  shows "(classificationIntervalRef s \<noteq> None \<longleftrightarrow> isCameraActive s) \<and>
         timers s =
           (case classificationIntervalRef s of
              None \<Rightarrow> []
            | Some h \<Rightarrow> [(h, classificationError s)]) \<and>
         length (timers s) \<le> 1 \<and>
         calls (startClassification s) =
           calls s @
           (case classificationIntervalRef s of None \<Rightarrow> [] | Some h \<Rightarrow> [ClearInterval h]) @
           [SetInterval (Handle (nextHandle s))] \<and>
         timers (startClassification s) = [(Handle (nextHandle s), classificationError s)] \<and>
         calls (stopCamera s) =
           calls s @
           (case classificationIntervalRef s of None \<Rightarrow> [] | Some h \<Rightarrow> [ClearInterval h]) @
           (case stream s of None \<Rightarrow> [] | Some ms \<Rightarrow> map TrackStop (getTracks ms)) \<and>
         timers (stopClassification s) = []"
proof -
  from assms have st: "settled s" by (rule reachable_settled)
  then have "length (timers s) \<le> 1"
    by (auto simp: settled_def split: option.splits)
  with st settled_stop_timers [OF st] show ?thesis
    by (simp add: settled_def startClassification_calls stopClassification_calls
        startClassification_timers stopCamera_calls)
qed

theorem polling_invariant_witness:
  "classificationIntervalRef stopped_twice = None \<and> timers stopped_twice = [] \<and>
   classificationIntervalRef filming \<noteq> None \<and> length (timers filming) \<le> 1 \<and>
   calls (stopCamera filming) =
     [SetInterval (Handle 0), ClearInterval (Handle 0), TrackStop 0, TrackStop 1]"
proof -
  have idle: "\<not> isCameraActive stopped_twice"
    by (simp add: stopped_twice_def evals)
  have active: "isCameraActive filming" "calls filming = [SetInterval (Handle 0)]"
    "classificationIntervalRef filming = Some (Handle 0)" "stream filming = Some rear_camera"
    by (simp_all add: filming_state)
  from polling_invariant [OF reachable_stopped_twice] idle
    polling_invariant [OF reachable_filming] active
  show ?thesis
    by (simp add: rear_camera_def)
qed

subsection \<open>Ticks\<close>

text \<open>
  What the callback does when its call settles. On a failure it sets the error text
  and the classification UNKNOWN. On a success it sets the classification, and
  clears the error when the value it closed over is truthy. It touches neither the
  stream, nor the activity flag, nor the timer. (The commit that follows a change of
  \<^verbatim>\<open>classificationError\<close> then clears the interval and sets a new one.)
\<close>

lemma tick_resume_failure:
  "classificationError (tick_resume c (Inl e) s) =
     Some ''Classification failed. Please check your network connection.'' \<and>
   classification (tick_resume c (Inl e) s) = UNKNOWN \<and>
   isCameraActive (tick_resume c (Inl e) s) = isCameraActive s \<and>
   stream (tick_resume c (Inl e) s) = stream s \<and>
   classificationIntervalRef (tick_resume c (Inl e) s) = classificationIntervalRef s \<and>
   timers (tick_resume c (Inl e) s) = timers s \<and>
   calls (tick_resume c (Inl e) s) = calls s"
  by (simp add: tick_resume_def)

lemma tick_resume_success:
  "classification (tick_resume c (Inr r) s) = r \<and>
   classificationError (tick_resume c (Inr r) s) =
     (if truthy c then None else classificationError s) \<and>
   isCameraActive (tick_resume c (Inr r) s) = isCameraActive s \<and>
   stream (tick_resume c (Inr r) s) = stream s \<and>
   classificationIntervalRef (tick_resume c (Inr r) s) = classificationIntervalRef s \<and>
   timers (tick_resume c (Inr r) s) = timers s \<and>
   calls (tick_resume c (Inr r) s) = calls s"
  by (simp add: tick_resume_def Let_def)

lemma reachable_classificationError:
  "reachable s \<Longrightarrow>
   classificationError s = None \<or>
   classificationError s = Some ''Classification failed. Please check your network connection.''"
proof (induction rule: reachable.induct)
  case reachable_init
  show ?case by (simp add: init_def)
next
  case (reachable_step s e)
  then show ?case
    by (cases e)
      (auto simp: step_def startCamera_def startCamera_resume_def tick_def settle_def
        tick_resume_def Let_def split: option.splits sum.splits)
qed

lemma step_Tick:
  assumes "settled s" and "classificationIntervalRef s = Some h" and "stream s \<noteq> None"
  shows "inFlight (step (Tick h) s) = inFlight s @ [classificationError s]"
    and "isCameraActive (step (Tick h) s)"
    and "stream (step (Tick h) s) = stream s"
    and "classificationError (step (Tick h) s) = classificationError s"
proof -
  from assms have "timers s = [(h, classificationError s)]" "videoRef s" "isCameraActive s"
    by (auto simp: settled_def)
  then show "inFlight (step (Tick h) s) = inFlight s @ [classificationError s]"
    and "isCameraActive (step (Tick h) s)"
    and "stream (step (Tick h) s) = stream s"
    and "classificationError (step (Tick h) s) = classificationError s"
    by (simp_all add: step_def tick_def)
qed

lemma step_Settled:
  "inFlight x = [c] \<Longrightarrow>
   classification (step (Settled 0 rt v) x) =
     classification (tick_resume c (snd (classifyWaste rt (Some v))) x) \<and>
   classificationError (step (Settled 0 rt v) x) =
     classificationError (tick_resume c (snd (classifyWaste rt (Some v))) x) \<and>
   isCameraActive (step (Settled 0 rt v) x) = isCameraActive x \<and>
   stream (step (Settled 0 rt v) x) = stream x \<and>
   inFlight (step (Settled 0 rt v) x) = []"
  by (cases "snd (classifyWaste rt (Some v))")
    (simp_all add: step_def settle_def tick_resume_def Let_def)

text \<open>
  A tick in a reachable state with no other call in flight: the callback closed over
  the current error, so a success clears it, and after either outcome the camera is
  still active with the same stream and one interval running.
\<close>

lemma tick_alone:
  assumes "reachable s" and "classificationIntervalRef s = Some h" and "stream s \<noteq> None"
    and "inFlight s = []"
  shows "(snd (classifyWaste rt (Some v)) = Inr r \<longrightarrow>
            classification (step (Settled 0 rt v) (step (Tick h) s)) = r \<and>
            classificationError (step (Settled 0 rt v) (step (Tick h) s)) = None) \<and>
         (snd (classifyWaste rt (Some v)) = Inl e \<longrightarrow>
            classification (step (Settled 0 rt v) (step (Tick h) s)) = UNKNOWN \<and>
            classificationError (step (Settled 0 rt v) (step (Tick h) s)) =
              Some ''Classification failed. Please check your network connection.'') \<and>
         isCameraActive (step (Settled 0 rt v) (step (Tick h) s)) \<and>
         stream (step (Settled 0 rt v) (step (Tick h) s)) = stream s \<and>
         (\<exists>h'. classificationIntervalRef (step (Settled 0 rt v) (step (Tick h) s)) = Some h' \<and>
               timers (step (Settled 0 rt v) (step (Tick h) s)) =
                 [(h', classificationError (step (Settled 0 rt v) (step (Tick h) s)))])"
proof -
  let ?x = "step (Tick h) s"
  let ?y = "step (Settled 0 rt v) ?x"
  from assms(1) have st: "settled s" by (rule reachable_settled)
  note t = step_Tick [OF st assms(2,3)]
  from t(1) assms(4) have fl: "inFlight ?x = [classificationError s]" by simp
  note y = step_Settled [OF fl, of rt v]
  from reachable_classificationError [OF assms(1)]
  have tr: "classificationError s = None \<or> truthy (classificationError s)"
    by auto
  have "settled ?y"
    by (intro settled_step st)
  moreover have act: "isCameraActive ?y"
    using y t(2) by simp
  ultimately have tm: "\<exists>h'. classificationIntervalRef ?y = Some h' \<and>
      timers ?y = [(h', classificationError ?y)]"
    by (auto simp: settled_def split: option.splits)
  have cleared: "(if truthy (classificationError s) then None else classificationError s) = None"
    using tr by (cases "classificationError s") auto
  have ok: "snd (classifyWaste rt (Some v)) = Inr r \<longrightarrow>
      classification ?y = r \<and> classificationError ?y = None"
  proof
    assume "snd (classifyWaste rt (Some v)) = Inr r"
    with y t(4) cleared show "classification ?y = r \<and> classificationError ?y = None"
      by (simp only: tick_resume_success)
  qed
  have ko: "snd (classifyWaste rt (Some v)) = Inl e \<longrightarrow>
      classification ?y = UNKNOWN \<and> classificationError ?y =
        Some ''Classification failed. Please check your network connection.''"
  proof
    assume "snd (classifyWaste rt (Some v)) = Inl e"
    with y show "classification ?y = UNKNOWN \<and> classificationError ?y =
        Some ''Classification failed. Please check your network connection.''"
      by (simp only: tick_resume_failure)
  qed
  from ok ko act tm y t(3) show ?thesis
    by simp
qed

text \<open>
  Claim C5 fails when two calls are in flight at once. The camera is started, the
  interval fires twice before the first call settles, the first call is rejected and
  the second succeeds with PLASTIC. The failure sets the error, and the commit
  replaces the interval; the second call belongs to the callback of the replaced
  interval, which closed over a null error: it sets the classification and leaves
  the error standing next to it.
\<close>

theorem stale_error_after_success:
  "isCameraActive (run overlapping init) \<and>
   classification (run overlapping init) = PLASTIC \<and>
   classificationError (run overlapping init) =
     Some ''Classification failed. Please check your network connection.''"
  by (simp add: overlapping_def evals streaming_def offline_def answering_def plastic_sure_def
      captureFrame_def parseText_def member_def decide_def)

end
